theory Spec2Isabelle
  imports Complex_Main "HOL-Library.Word"
begin

section \<open>Values exchanged with the portal\<close>

text \<open>
  The library talks to the portal over D-Bus.  Everything it sends or receives is a
  \<^verbatim>\<open>GVariant\<close>; only the shapes the four source files build or inspect are modelled.
  An \<^verbatim>\<open>a{sv}\<close> dictionary keeps its entries in the order they were added.
\<close>

datatype GVariant =
    VString string
  | VBoolean bool
  | VUInt32 "32 word"
  | VHandle int
  | VDouble real
  | VArray "GVariant list"
  | VTuple "GVariant list"
  | VDict "(string \<times> GVariant) list"

type_synonym vardict = "(string \<times> GVariant) list"

text \<open>The constants of \<^verbatim>\<open>portal-private.h\<close>.\<close>

definition PORTAL_BUS_NAME :: string where
  "PORTAL_BUS_NAME = ''org.freedesktop.portal.Desktop''"

definition PORTAL_OBJECT_PATH :: string where
  "PORTAL_OBJECT_PATH = ''/org/freedesktop/portal/desktop''"

definition REQUEST_PATH_PREFIX :: string where
  "REQUEST_PATH_PREFIX = ''/org/freedesktop/portal/desktop/request/''"

definition REQUEST_INTERFACE :: string where
  "REQUEST_INTERFACE = ''org.freedesktop.portal.Request''"

definition G_MAXINT :: int where
  "G_MAXINT = 2147483647"

section \<open>The task, the bus and the other collaborators\<close>

text \<open>
  What a call hands to its \<^verbatim>\<open>GTask\<close>: \<^verbatim>\<open>g_task_return_pointer\<close>,
  \<^verbatim>\<open>g_task_return_boolean\<close> or \<^verbatim>\<open>g_task_return_new_error\<close> in the domain
  \<^verbatim>\<open>G_IO_ERROR\<close>.  Success is a returned pointer or boolean, Cancelled is the error
  code \<^verbatim>\<open>G_IO_ERROR_CANCELLED\<close>, Failed is \<^verbatim>\<open>G_IO_ERROR_FAILED\<close>.
\<close>

datatype gpointer = PVariant GVariant | PString string

datatype GIOErrorEnum = G_IO_ERROR_FAILED | G_IO_ERROR_CANCELLED

datatype GTaskResult =
    ReturnPointer gpointer
  | ReturnBoolean bool
  | ReturnError GIOErrorEnum string

text \<open>
  Every call the library makes on a collaborator is recorded, in the order the calls are
  made.  A \<open>DBusCall\<close> is \<^verbatim>\<open>g_dbus_connection_call\<close> (or its fd-list variant); the
  library passes a null reply callback everywhere, which \<open>has_callback\<close> records.
\<close>

datatype fault = NullDereference | UseAfterFree | PreconditionViolated

datatype XdpParent = XdpParent nat

datatype effect =
    ParentExport
  | ParentUnexport
  | SignalSubscribe (sub_sender: string) (sub_interface: string) (sub_member: string)
      (sub_path: string) (sub_id: nat)
  | SignalUnsubscribe nat
  | HandlerConnect nat
  | HandlerDisconnect nat
  | DBusCall (bus_name: string) (object_path: string) (interface: string) (dbus_method: string)
      (parameters: "GVariant option") (fd_list: "int list option")
      (with_cancellable: bool) (has_callback: bool)
  | TaskReturn GTaskResult
  | Warning string
  | Critical string

text \<open>
  The \<^verbatim>\<open>GCancellable\<close> the caller gave to \<^verbatim>\<open>g_task_new\<close>: whether it has been
  cancelled, and the handlers connected to its \<^verbatim>\<open>cancelled\<close> signal.
\<close>

record GCancellable =
  is_cancelled :: bool
  handlers :: "nat list"
  next_handler :: nat

text \<open>
  The state outside the call structure.  \<open>cancellable\<close> and \<open>task_result\<close> are the
  task's; \<open>subscriptions\<close> are the bus's signal subscriptions (id and object path);
  \<open>exporting\<close> says that the parent window's export has been started and its callback
  has not yet run; \<open>rng\<close> is the stream \<^verbatim>\<open>g_random_int_range\<close> draws from;
  \<open>uninit\<close> is what an uninitialised pointer variable on the stack happens to hold
  (\<open>None\<close> for a null pointer); \<open>fs\<close> is the descriptor \<^verbatim>\<open>g_open\<close> returns for a
  path (\<open>-1\<close> on failure) and \<open>fd_append_fails\<close> says for which descriptors
  \<^verbatim>\<open>g_unix_fd_list_append\<close> sets its error; \<open>copy_of_null\<close> is what
  \<^verbatim>\<open>_xdp_parent_copy\<close> does when it is handed a null pointer.
\<close>

record world =
  effects :: "effect list"
  cancellable :: "GCancellable option"
  task_result :: "GTaskResult option"
  subscriptions :: "(nat \<times> string) list"
  next_subscription :: nat
  exporting :: bool
  rng :: "nat \<Rightarrow> int"
  rng_pos :: nat
  uninit :: "string option"
  fs :: "string \<Rightarrow> int"
  fd_append_fails :: "int \<Rightarrow> bool"
  copy_of_null :: "fault + XdpParent option"

definition emit :: "effect \<Rightarrow> world \<Rightarrow> world" where
  "emit e w = w\<lparr>effects := effects w @ [e]\<rparr>"

text \<open>
  \<^verbatim>\<open>g_random_int_range (begin, end)\<close> returns a value in \<open>[begin, end)\<close>; which one is
  the generator's choice.
\<close>

definition g_random_int_range :: "int \<Rightarrow> int \<Rightarrow> world \<Rightarrow> int \<times> world" where
  "g_random_int_range lo hi w =
     (lo + rng w (rng_pos w) mod (hi - lo), w\<lparr>rng_pos := Suc (rng_pos w)\<rparr>)"

text \<open>\<^verbatim>\<open>%d\<close> of \<^verbatim>\<open>g_strdup_printf\<close>: decimal digits, with a sign when negative.\<close>

definition digit_char :: "nat \<Rightarrow> char" where
  "digit_char d = char_of (48 + d)"

fun string_of_nat :: "nat \<Rightarrow> string" where
  "string_of_nat n =
     (if n < 10 then [digit_char n] else string_of_nat (n div 10) @ [digit_char (n mod 10)])"

definition printf_d :: "int \<Rightarrow> string" where
  "printf_d i = (if i < 0 then CHR ''-'' # string_of_nat (nat (- i)) else string_of_nat (nat i))"

text \<open>
  \<^verbatim>\<open>g_dbus_connection_signal_subscribe\<close> returns a non-zero id and
  \<^verbatim>\<open>g_dbus_connection_signal_unsubscribe\<close> removes the subscription with that id.
\<close>

definition g_dbus_connection_signal_subscribe ::
  "string \<Rightarrow> string \<Rightarrow> string \<Rightarrow> string \<Rightarrow> world \<Rightarrow> nat \<times> world" where
  "g_dbus_connection_signal_subscribe sndr iface member path w =
     (let i = Suc (next_subscription w)
      in (i, emit (SignalSubscribe sndr iface member path i)
               (w\<lparr>subscriptions := subscriptions w @ [(i, path)], next_subscription := i\<rparr>)))"

definition g_dbus_connection_signal_unsubscribe :: "nat \<Rightarrow> world \<Rightarrow> world" where
  "g_dbus_connection_signal_unsubscribe i w =
     emit (SignalUnsubscribe i)
       (w\<lparr>subscriptions := filter (\<lambda>s. fst s \<noteq> i) (subscriptions w)\<rparr>)"

text \<open>
  \<^verbatim>\<open>g_signal_connect (cancellable, "cancelled", cancelled_cb, call)\<close> returns a non-zero
  handler id; \<^verbatim>\<open>g_signal_handler_disconnect\<close> on the task's cancellable removes it.
\<close>

definition g_signal_connect_cancelled :: "GCancellable \<Rightarrow> world \<Rightarrow> nat \<times> world" where
  "g_signal_connect_cancelled g w =
     (let h = Suc (next_handler g)
      in (h, emit (HandlerConnect h)
               (w\<lparr>cancellable := Some (g\<lparr>handlers := handlers g @ [h], next_handler := h\<rparr>)\<rparr>)))"

definition g_signal_handler_disconnect :: "nat \<Rightarrow> world \<Rightarrow> world" where
  "g_signal_handler_disconnect h w =
     emit (HandlerDisconnect h)
       (w\<lparr>cancellable :=
            map_option (\<lambda>g. g\<lparr>handlers := removeAll h (handlers g)\<rparr>) (cancellable w)\<rparr>)"

text \<open>
  \<^verbatim>\<open>g_dbus_connection_call\<close> as the library uses it: the last three arguments (reply
  callback and its data) are null at every call site, so nothing of the library runs
  when the method's reply arrives.
\<close>

definition g_dbus_connection_call ::
  "string \<Rightarrow> string \<Rightarrow> string \<Rightarrow> string \<Rightarrow> GVariant option \<Rightarrow> int list option \<Rightarrow> bool
     \<Rightarrow> world \<Rightarrow> world" where
  "g_dbus_connection_call bus path iface meth params fds canc w =
     emit (DBusCall bus path iface meth params fds canc False) w"

definition g_task_return :: "GTaskResult \<Rightarrow> world \<Rightarrow> world" where
  "g_task_return r w = emit (TaskReturn r) (w\<lparr>task_result := Some r\<rparr>)"

text \<open>\<^verbatim>\<open>g_task_new (portal, cancellable, callback, data)\<close>: a task with no result yet.\<close>

definition g_task_new :: "GCancellable option \<Rightarrow> world \<Rightarrow> world" where
  "g_task_new c w = w\<lparr>cancellable := c, task_result := None\<rparr>"

text \<open>
  \<^verbatim>\<open>g_variant_lookup (dict, key, format, &out)\<close>: the first entry under the key, when
  its value has the type of the format; otherwise \<open>out\<close> is left as it was.
\<close>

fun is_ddd :: "GVariant \<Rightarrow> bool" where
  "is_ddd (VTuple [VDouble r, VDouble g, VDouble b]) = True"
| "is_ddd v = False"

fun is_s :: "GVariant \<Rightarrow> bool" where
  "is_s (VString s) = True"
| "is_s v = False"

definition g_variant_lookup :: "vardict \<Rightarrow> string \<Rightarrow> (GVariant \<Rightarrow> bool) \<Rightarrow> GVariant option" where
  "g_variant_lookup dict key has_type =
     (case map_of dict key of
        None \<Rightarrow> None
      | Some v \<Rightarrow> if has_type v then Some v else None)"

section \<open>The call structure\<close>

text \<open>
  \<^verbatim>\<open>AccountCall\<close>, \<^verbatim>\<open>EmailCall\<close>, \<^verbatim>\<open>FileCall\<close> and \<^verbatim>\<open>ScreenshotCall\<close> share
  the fields of \<open>Call\<close>; each adds its own.  \<^verbatim>\<open>g_new0\<close> zeroes every field: pointers
  are \<open>None\<close>, ids are \<open>0\<close>.  The \<^verbatim>\<open>task\<close> field points at the task, whose state is
  kept in the \<open>world\<close>.
\<close>

record XdpPortal =
  sender :: string

record Call =
  portal :: XdpPortal
  parent :: "XdpParent option"
  parent_handle :: "string option"
  signal_id :: nat
  request_path :: "string option"
  cancelled_id :: nat

record AccountCall = Call +
  reason :: "string option"

text \<open>
  \<^verbatim>\<open>export\<close> and \<^verbatim>\<open>unexport\<close> are function pointers of the parent window and
  are not part of these sources.  Export starts the asynchronous export, whose callback
  \<^verbatim>\<open>parent_exported\<close> runs later; unexport ends it.
\<close>

definition parent_export :: "world \<Rightarrow> world" where
  "parent_export w = emit ParentExport (w\<lparr>exporting := True\<rparr>)"

definition parent_unexport :: "world \<Rightarrow> world" where
  "parent_unexport w = emit ParentUnexport (w\<lparr>exporting := False\<rparr>)"

section \<open>Code common to the four files\<close>

text \<open>
  \<^verbatim>\<open>account_call_free\<close> (account.c 45-69), \<^verbatim>\<open>email_call_free\<close>,
  \<^verbatim>\<open>file_call_free\<close> and \<^verbatim>\<open>screenshot_call_free\<close> start with the same statements:
  unexport the parent if there is one, unsubscribe the signal if \<open>signal_id\<close> is set,
  disconnect the cancellation handler if \<open>cancelled_id\<close> is set.  What follows in each
  only releases memory.
\<close>

definition call_free :: "'a Call_scheme \<Rightarrow> world \<Rightarrow> world" where
  "call_free call w =
     (let w1 = (case parent call of Some p \<Rightarrow> parent_unexport w | None \<Rightarrow> w);
          w2 = (if signal_id call \<noteq> 0
                then g_dbus_connection_signal_unsubscribe (signal_id call) w1 else w1);
          w3 = (if cancelled_id call \<noteq> 0
                then g_signal_handler_disconnect (cancelled_id call) w2 else w2)
      in w3)"

text \<open>
  The head of every \<^verbatim>\<open>response_received\<close> (account.c 84-88): disconnect the
  cancellation handler and clear \<open>cancelled_id\<close>.
\<close>

definition disconnect_cancelled :: "'a Call_scheme \<Rightarrow> world \<Rightarrow> 'a Call_scheme \<times> world" where
  "disconnect_cancelled call w =
     (if cancelled_id call \<noteq> 0
      then (call\<lparr>cancelled_id := 0\<rparr>, g_signal_handler_disconnect (cancelled_id call) w)
      else (call, w))"

text \<open>
  \<^verbatim>\<open>cancelled_cb\<close> (account.c 114-130, the same in every file): send \<^verbatim>\<open>Close\<close> to
  the request path, with no parameters, no cancellable and no reply callback.
\<close>

definition cancelled_cb :: "'a Call_scheme \<Rightarrow> world \<Rightarrow> fault + world" where
  "cancelled_cb call w =
     (case request_path call of
        None \<Rightarrow> Inl PreconditionViolated
      | Some p \<Rightarrow>
          Inr (g_dbus_connection_call PORTAL_BUS_NAME p REQUEST_INTERFACE ''Close''
                 None None False w))"

text \<open>
  The token, the request path, the subscription and the cancellation handler
  (account.c 145-160; email.c 166-181, file.c 162-177 and screenshot.c 163-178 are the
  same text).  Returns the token with the updated call.
\<close>

definition allocate_and_arm :: "'a Call_scheme \<Rightarrow> world \<Rightarrow> string \<times> 'a Call_scheme \<times> world" where
  "allocate_and_arm call w =
     (let (r, w1) = g_random_int_range 0 G_MAXINT w;
          token = ''portal'' @ printf_d r;
          path = REQUEST_PATH_PREFIX @ sender (portal call) @ ''/'' @ token;
          (sid, w2) = g_dbus_connection_signal_subscribe
                        PORTAL_BUS_NAME REQUEST_INTERFACE ''Response'' path w1;
          call1 = call\<lparr>request_path := Some path, signal_id := sid\<rparr>
      in (case cancellable w2 of
            None \<Rightarrow> (token, call1, w2)
          | Some g \<Rightarrow>
              (let (h, w3) = g_signal_connect_cancelled g w2
               in (token, call1\<lparr>cancelled_id := h\<rparr>, w3))))"

section \<open>account.c\<close>

definition account_response_received ::
  "32 word \<Rightarrow> vardict \<Rightarrow> AccountCall \<Rightarrow> world \<Rightarrow> world" where
  "account_response_received response ret call w =
     (let (call1, w1) = disconnect_cancelled call w;
          w2 = (if response = 0 then g_task_return (ReturnPointer (PVariant (VDict ret))) w1
                else if response = 1
                then g_task_return (ReturnError G_IO_ERROR_CANCELLED ''Account canceled'') w1
                else g_task_return (ReturnError G_IO_ERROR_FAILED ''Account failed'') w1)
      in call_free call1 w2)"

text \<open>
  \<^verbatim>\<open>get_user_information\<close> (account.c 132-178).  With no parent handle yet it starts
  the export through \<open>call->parent\<close> and returns.  \<^verbatim>\<open>g_variant_new_string\<close> requires
  a string: a null \<open>reason\<close> violates its precondition.
\<close>

definition get_user_information :: "AccountCall \<Rightarrow> world \<Rightarrow> fault + AccountCall \<times> world" where
  "get_user_information call w =
     (case parent_handle call of
        None \<Rightarrow>
          (case parent call of
             None \<Rightarrow> Inl NullDereference
           | Some p \<Rightarrow> Inr (call, parent_export w))
      | Some h \<Rightarrow>
          (let (token, call1, w1) = allocate_and_arm call w
           in (case reason call of
                 None \<Rightarrow> Inl PreconditionViolated
               | Some r \<Rightarrow>
                   (let options = [(''handle_token'', VString token), (''reason'', VString r)]
                    in Inr (call1,
                         g_dbus_connection_call PORTAL_BUS_NAME PORTAL_OBJECT_PATH
                           ''org.freedesktop.portal.Account'' ''GetUserInformation''
                           (Some (VTuple [VString h, VDict options])) None
                           (cancellable w1 \<noteq> None) w1)))))"

text \<open>
  Modelled from the spec: \<^verbatim>\<open>_xdp_parent_copy\<close> is declared in
  \<^verbatim>\<open>utils-private.h\<close>, which is not among the sources.  It returns a copy of the
  parent structure it is given (the call owns its parent handle export); what it does
  with a null pointer is left to \<open>copy_of_null\<close>.
\<close>

definition xdp_parent_copy :: "XdpParent option \<Rightarrow> world \<Rightarrow> fault + XdpParent option" where
  "xdp_parent_copy p w = (case p of Some x \<Rightarrow> Inr (Some x) | None \<Rightarrow> copy_of_null w)"

text \<open>
  \<^verbatim>\<open>xdp_portal_get_user_information\<close> (account.c 195-217): the parent is copied when
  there is one, otherwise the parent handle is the empty string.
\<close>

definition xdp_portal_get_user_information ::
  "XdpPortal \<Rightarrow> XdpParent option \<Rightarrow> string option \<Rightarrow> GCancellable option \<Rightarrow> world
     \<Rightarrow> fault + AccountCall \<times> world" where
  "xdp_portal_get_user_information prtl prnt rsn canc w =
     (let call = \<lparr>portal = prtl, parent = None, parent_handle = None,
                  signal_id = 0, request_path = None, cancelled_id = 0, reason = rsn\<rparr>
      in (case prnt of
            Some p \<Rightarrow>
              (case xdp_parent_copy prnt w of
                 Inl f \<Rightarrow> Inl f
               | Inr q \<Rightarrow> get_user_information (call\<lparr>parent := q\<rparr>) (g_task_new canc w))
          | None \<Rightarrow>
              get_user_information (call\<lparr>parent_handle := Some ''''\<rparr>) (g_task_new canc w)))"

section \<open>email.c\<close>

record EmailCall = Call +
  address :: "string option"
  subject :: "string option"
  body :: "string option"
  attachments :: "string list option"

definition email_response_received ::
  "32 word \<Rightarrow> vardict \<Rightarrow> EmailCall \<Rightarrow> world \<Rightarrow> world" where
  "email_response_received response ret call w =
     (let (call1, w1) = disconnect_cancelled call w;
          w2 = (if response = 0 then g_task_return (ReturnBoolean True) w1
                else if response = 1
                then g_task_return (ReturnError G_IO_ERROR_CANCELLED ''Email canceled'') w1
                else g_task_return (ReturnError G_IO_ERROR_FAILED ''Email failed'') w1)
      in call_free call1 w2)"

text \<open>
  The loop over the attachments (email.c 199-218).  \<open>fds\<close> is the fd list built so far
  and \<open>attach\<close> the \<^verbatim>\<open>ah\<close> array of indices into it.  A path that cannot be opened,
  or a descriptor the list refuses, is skipped with a warning.
\<close>

fun add_attachments ::
  "string list \<Rightarrow> int list \<Rightarrow> int list \<Rightarrow> world \<Rightarrow> int list \<times> int list \<times> world" where
  "add_attachments [] fds attach w = (fds, attach, w)"
| "add_attachments (p # ps) fds attach w =
     (let fd = fs w p
      in if fd = - 1
         then add_attachments ps fds attach
                (emit (Warning (''Failed to open '' @ p @ '', skipping'')) w)
         else if fd_append_fails w fd
         then add_attachments ps fds attach
                (emit (Warning (''Failed to add '' @ p @ '' to request, skipping'')) w)
         else add_attachments ps (fds @ [fd]) (attach @ [int (length fds)]) w)"

definition opt_entry :: "string \<Rightarrow> string option \<Rightarrow> vardict" where
  "opt_entry key v = (case v of None \<Rightarrow> [] | Some s \<Rightarrow> [(key, VString s)])"

text \<open>\<^verbatim>\<open>compose_email\<close> (email.c 152-236).\<close>

definition compose_email :: "EmailCall \<Rightarrow> world \<Rightarrow> fault + EmailCall \<times> world" where
  "compose_email call w =
     (case parent_handle call of
        None \<Rightarrow>
          (case parent call of
             None \<Rightarrow> Inl NullDereference
           | Some p \<Rightarrow> Inr (call, parent_export w))
      | Some h \<Rightarrow>
          (let (token, call1, w1) = allocate_and_arm call w;
               options = [(''handle_token'', VString token)]
                         @ opt_entry ''address'' (address call)
                         @ opt_entry ''subject'' (subject call)
                         @ opt_entry ''body'' (body call);
               (options1, fd_list, w2) =
                 (case attachments call of
                    None \<Rightarrow> (options, None, w1)
                  | Some ps \<Rightarrow>
                      (let (fds, attach, w') = add_attachments ps [] [] w1
                       in (options @ [(''attachment_fds'', VArray (map VHandle attach))],
                           Some fds, w')))
           in Inr (call1,
                g_dbus_connection_call PORTAL_BUS_NAME PORTAL_OBJECT_PATH
                  ''org.freedesktop.portal.Email'' ''ComposeEmail''
                  (Some (VTuple [VString h, VDict options1])) fd_list
                  (cancellable w2 \<noteq> None) w2)))"

text \<open>
  \<^verbatim>\<open>xdp_portal_compose_email\<close> (email.c 256-284).  \<^verbatim>\<open>g_strdup\<close> and
  \<^verbatim>\<open>g_strdupv\<close> keep a null pointer null and copy anything else, an empty array
  included.
\<close>

definition xdp_portal_compose_email ::
  "XdpPortal \<Rightarrow> XdpParent option \<Rightarrow> string option \<Rightarrow> string option \<Rightarrow> string option
     \<Rightarrow> string list option \<Rightarrow> GCancellable option \<Rightarrow> world \<Rightarrow> fault + EmailCall \<times> world" where
  "xdp_portal_compose_email prtl prnt addr subj bdy atts canc w =
     (let call = \<lparr>portal = prtl, parent = None, parent_handle = None,
                  signal_id = 0, request_path = None, cancelled_id = 0,
                  address = addr, subject = subj, body = bdy, attachments = atts\<rparr>
      in (case prnt of
            Some p \<Rightarrow>
              (case xdp_parent_copy prnt w of
                 Inl f \<Rightarrow> Inl f
               | Inr q \<Rightarrow> compose_email (call\<lparr>parent := q\<rparr>) (g_task_new canc w))
          | None \<Rightarrow> compose_email (call\<lparr>parent_handle := Some ''''\<rparr>) (g_task_new canc w)))"

section \<open>file.c\<close>

record FileCall = Call +
  save_mode :: bool
  title :: "string option"
  modal :: bool
  multiple :: bool
  current_name :: "string option"
  current_folder :: "string option"
  current_file :: "string option"
  filters :: "GVariant option"
  choices :: "GVariant option"

text \<open>
  \<^verbatim>\<open>file_call_free\<close> (file.c 57-86) ends with \<^verbatim>\<open>g_variant_unref\<close> on \<open>filters\<close>
  and \<open>choices\<close> without a null check; on a null pointer that function logs a critical
  warning and returns.
\<close>

definition file_call_free :: "FileCall \<Rightarrow> world \<Rightarrow> world" where
  "file_call_free call w =
     (let w1 = call_free call w;
          w2 = (case filters call of None \<Rightarrow> emit (Critical ''g_variant_unref'') w1
                | Some v \<Rightarrow> w1);
          w3 = (case choices call of None \<Rightarrow> emit (Critical ''g_variant_unref'') w2
                | Some v \<Rightarrow> w2)
      in w3)"

definition file_response_received ::
  "32 word \<Rightarrow> vardict \<Rightarrow> FileCall \<Rightarrow> world \<Rightarrow> world" where
  "file_response_received response ret call w =
     (let (call1, w1) = disconnect_cancelled call w;
          w2 = (if response = 0 then g_task_return (ReturnPointer (PVariant (VDict ret))) w1
                else if response = 1
                then g_task_return (ReturnError G_IO_ERROR_CANCELLED ''Filechooser canceled'') w1
                else g_task_return (ReturnError G_IO_ERROR_FAILED ''Filechooser failed'') w1)
      in file_call_free call1 w2)"

definition opt_variant :: "string \<Rightarrow> GVariant option \<Rightarrow> vardict" where
  "opt_variant key v = (case v of None \<Rightarrow> [] | Some x \<Rightarrow> [(key, x)])"

text \<open>
  \<^verbatim>\<open>open_file\<close> (file.c 149-207), used for opening and for saving.
  \<^verbatim>\<open>g_variant_new ("(ssa{sv})", ...)\<close> requires a string for the title.
\<close>

definition open_file :: "FileCall \<Rightarrow> world \<Rightarrow> fault + FileCall \<times> world" where
  "open_file call w =
     (case parent_handle call of
        None \<Rightarrow>
          (case parent call of
             None \<Rightarrow> Inl NullDereference
           | Some p \<Rightarrow> Inr (call, parent_export w))
      | Some h \<Rightarrow>
          (let (token, call1, w1) = allocate_and_arm call w;
               options = [(''handle_token'', VString token),
                          (''modal'', VBoolean (FileCall.modal call))]
                         @ (if multiple call then [(''multiple'', VBoolean (multiple call))]
                            else [])
                         @ opt_variant ''filters'' (filters call)
                         @ opt_variant ''choices'' (choices call)
                         @ opt_entry ''current_name'' (current_name call)
                         @ opt_entry ''current_folder'' (current_folder call)
                         @ opt_entry ''current_file'' (current_file call)
           in (case title call of
                 None \<Rightarrow> Inl PreconditionViolated
               | Some t \<Rightarrow>
                   Inr (call1,
                     g_dbus_connection_call PORTAL_BUS_NAME PORTAL_OBJECT_PATH
                       ''org.freedesktop.portal.FileChooser''
                       (if save_mode call then ''SaveFile'' else ''OpenFile'')
                       (Some (VTuple [VString h, VString t, VDict options])) None
                       (cancellable w1 \<noteq> None) w1))))"

text \<open>\<^verbatim>\<open>xdp_portal_open_file\<close> (file.c 249-279).\<close>

definition xdp_portal_open_file ::
  "XdpPortal \<Rightarrow> XdpParent option \<Rightarrow> string option \<Rightarrow> bool \<Rightarrow> bool \<Rightarrow> GVariant option
     \<Rightarrow> GVariant option \<Rightarrow> GCancellable option \<Rightarrow> world \<Rightarrow> fault + FileCall \<times> world" where
  "xdp_portal_open_file prtl prnt ttl mdl mult flt chc canc w =
     (let call = \<lparr>portal = prtl, parent = None, parent_handle = None,
                  signal_id = 0, request_path = None, cancelled_id = 0,
                  save_mode = False, title = ttl, modal = mdl, multiple = mult,
                  current_name = None, current_folder = None, current_file = None,
                  filters = flt, choices = chc\<rparr>
      in (case prnt of
            Some p \<Rightarrow>
              (case xdp_parent_copy prnt w of
                 Inl f \<Rightarrow> Inl f
               | Inr q \<Rightarrow> open_file (call\<lparr>parent := q\<rparr>) (g_task_new canc w))
          | None \<Rightarrow> open_file (call\<lparr>parent_handle := Some ''''\<rparr>) (g_task_new canc w)))"

text \<open>
  \<^verbatim>\<open>xdp_portal_save_file\<close> (file.c 332-364): the parent is copied without a test and
  \<open>parent_handle\<close> is never set here.
\<close>

definition xdp_portal_save_file ::
  "XdpPortal \<Rightarrow> XdpParent option \<Rightarrow> string option \<Rightarrow> bool \<Rightarrow> string option \<Rightarrow> string option
     \<Rightarrow> string option \<Rightarrow> GVariant option \<Rightarrow> GVariant option \<Rightarrow> GCancellable option \<Rightarrow> world
     \<Rightarrow> fault + FileCall \<times> world" where
  "xdp_portal_save_file prtl prnt ttl mdl cname cfolder cfile flt chc canc w =
     (let call = \<lparr>portal = prtl, parent = None, parent_handle = None,
                  signal_id = 0, request_path = None, cancelled_id = 0,
                  save_mode = False, title = None, modal = False, multiple = False,
                  current_name = None, current_folder = None, current_file = None,
                  filters = None, choices = None\<rparr>
      in (case xdp_parent_copy prnt w of
            Inl f \<Rightarrow> Inl f
          | Inr q \<Rightarrow>
              open_file
                (call\<lparr>parent := q, save_mode := True, title := ttl, modal := mdl,
                      current_name := cname, current_folder := cfolder,
                      current_file := cfile, filters := flt, choices := chc\<rparr>)
                (g_task_new canc w)))"

section \<open>screenshot.c\<close>

record ScreenshotCall = Call +
  color :: bool
  modal :: bool
  interactive :: bool

text \<open>
  \<^verbatim>\<open>response_received\<close> (screenshot.c 70-118).  In the color branch the local
  \<open>color\<close> starts as a null pointer.  In the other branch \<open>uri\<close> is declared without
  an initialiser, so when the lookup finds no string under \<^verbatim>\<open>uri\<close> the test
  \<^verbatim>\<open>if (uri)\<close> reads what the variable happened to hold.
\<close>

definition screenshot_response_received ::
  "32 word \<Rightarrow> vardict \<Rightarrow> ScreenshotCall \<Rightarrow> world \<Rightarrow> world" where
  "screenshot_response_received response ret call w =
     (let (call1, w1) = disconnect_cancelled call w;
          w2 = (if response = 0
                then (if color call
                      then (case g_variant_lookup ret ''color'' is_ddd of
                              Some c \<Rightarrow> g_task_return (ReturnPointer (PVariant c)) w1
                            | None \<Rightarrow>
                                g_task_return
                                  (ReturnError G_IO_ERROR_FAILED ''Color not received'') w1)
                      else (let uri = (case g_variant_lookup ret ''uri'' is_s of
                                         Some (VString u) \<Rightarrow> Some u
                                       | _ \<Rightarrow> uninit w1)
                            in (case uri of
                                  Some u \<Rightarrow> g_task_return (ReturnPointer (PString u)) w1
                                | None \<Rightarrow>
                                    g_task_return
                                      (ReturnError G_IO_ERROR_FAILED ''Screenshot not received'')
                                      w1)))
                else if response = 1
                then g_task_return (ReturnError G_IO_ERROR_CANCELLED ''Screenshot canceled'') w1
                else g_task_return (ReturnError G_IO_ERROR_FAILED ''Screenshot failed'') w1)
      in call_free call1 w2)"

text \<open>\<^verbatim>\<open>take_screenshot\<close> (screenshot.c 150-200), used for screenshots and colors.\<close>

definition take_screenshot :: "ScreenshotCall \<Rightarrow> world \<Rightarrow> fault + ScreenshotCall \<times> world" where
  "take_screenshot call w =
     (case parent_handle call of
        None \<Rightarrow>
          (case parent call of
             None \<Rightarrow> Inl NullDereference
           | Some p \<Rightarrow> Inr (call, parent_export w))
      | Some h \<Rightarrow>
          (let (token, call1, w1) = allocate_and_arm call w;
               options = [(''handle_token'', VString token)]
                         @ (if \<not> color call
                            then [(''modal'', VBoolean (ScreenshotCall.modal call)),
                                  (''interactive'', VBoolean (interactive call))]
                            else [])
           in Inr (call1,
                g_dbus_connection_call PORTAL_BUS_NAME PORTAL_OBJECT_PATH
                  ''org.freedesktop.portal.Screenshot''
                  (if color call then ''PickColor'' else ''Screenshot'')
                  (Some (VTuple [VString h, VDict options])) None
                  (cancellable w1 \<noteq> None) w1)))"

text \<open>\<^verbatim>\<open>xdp_portal_take_screenshot\<close> (screenshot.c 217-242).\<close>

definition xdp_portal_take_screenshot ::
  "XdpPortal \<Rightarrow> XdpParent option \<Rightarrow> bool \<Rightarrow> bool \<Rightarrow> GCancellable option \<Rightarrow> world
     \<Rightarrow> fault + ScreenshotCall \<times> world" where
  "xdp_portal_take_screenshot prtl prnt mdl intr canc w =
     (let call = \<lparr>portal = prtl, parent = None, parent_handle = None,
                  signal_id = 0, request_path = None, cancelled_id = 0,
                  color = False, modal = mdl, interactive = intr\<rparr>
      in (case prnt of
            Some p \<Rightarrow>
              (case xdp_parent_copy prnt w of
                 Inl f \<Rightarrow> Inl f
               | Inr q \<Rightarrow> take_screenshot (call\<lparr>parent := q\<rparr>) (g_task_new canc w))
          | None \<Rightarrow> take_screenshot (call\<lparr>parent_handle := Some ''''\<rparr>) (g_task_new canc w)))"

text \<open>\<^verbatim>\<open>xdp_portal_pick_color\<close> (screenshot.c 279-300).\<close>

definition xdp_portal_pick_color ::
  "XdpPortal \<Rightarrow> XdpParent option \<Rightarrow> GCancellable option \<Rightarrow> world
     \<Rightarrow> fault + ScreenshotCall \<times> world" where
  "xdp_portal_pick_color prtl prnt canc w =
     (let call = \<lparr>portal = prtl, parent = None, parent_handle = None,
                  signal_id = 0, request_path = None, cancelled_id = 0,
                  color = True, modal = False, interactive = False\<rparr>
      in (case prnt of
            Some p \<Rightarrow>
              (case xdp_parent_copy prnt w of
                 Inl f \<Rightarrow> Inl f
               | Inr q \<Rightarrow> take_screenshot (call\<lparr>parent := q\<rparr>) (g_task_new canc w))
          | None \<Rightarrow> take_screenshot (call\<lparr>parent_handle := Some ''''\<rparr>) (g_task_new canc w)))"

section \<open>The main loop\<close>

text \<open>
  A call in flight is the call structure of one of the four files.  The callbacks a file
  registers (\<^verbatim>\<open>parent_exported\<close>, \<^verbatim>\<open>response_received\<close>, \<^verbatim>\<open>cancelled_cb\<close>) get
  the call structure as their data, so the structure's type says which file's callback
  runs.
\<close>

datatype any_call =
    CAccount AccountCall
  | CEmail EmailCall
  | CFile FileCall
  | CScreenshot ScreenshotCall

definition common :: "any_call \<Rightarrow> Call" where
  "common k =
     (case k of
        CAccount c \<Rightarrow> Call.truncate c
      | CEmail c \<Rightarrow> Call.truncate c
      | CFile c \<Rightarrow> Call.truncate c
      | CScreenshot c \<Rightarrow> Call.truncate c)"

definition wrap :: "('c \<Rightarrow> any_call) \<Rightarrow> fault + 'c \<times> world \<Rightarrow> fault + any_call \<times> world" where
  "wrap K r = (case r of Inl f \<Rightarrow> Inl f | Inr (c, w) \<Rightarrow> Inr (K c, w))"


text \<open>
  \<^verbatim>\<open>parent_exported\<close> (account.c 104-112, and the same in the other files) stores a
  copy of the handle it is given, which \<^verbatim>\<open>g_strdup\<close> leaves null when it is null, and
  calls the request function again.
\<close>

definition parent_exported :: "string option \<Rightarrow> any_call \<Rightarrow> world \<Rightarrow> fault + any_call \<times> world" where
  "parent_exported handle k w =
     (case k of
        CAccount c \<Rightarrow> wrap CAccount (get_user_information (c\<lparr>parent_handle := handle\<rparr>) w)
      | CEmail c \<Rightarrow> wrap CEmail (compose_email (c\<lparr>parent_handle := handle\<rparr>) w)
      | CFile c \<Rightarrow> wrap CFile (open_file (c\<lparr>parent_handle := handle\<rparr>) w)
      | CScreenshot c \<Rightarrow> wrap CScreenshot (take_screenshot (c\<lparr>parent_handle := handle\<rparr>) w))"

definition response_received :: "32 word \<Rightarrow> vardict \<Rightarrow> any_call \<Rightarrow> world \<Rightarrow> world" where
  "response_received response ret k w =
     (case k of
        CAccount c \<Rightarrow> account_response_received response ret c w
      | CEmail c \<Rightarrow> email_response_received response ret c w
      | CFile c \<Rightarrow> file_response_received response ret c w
      | CScreenshot c \<Rightarrow> screenshot_response_received response ret c w)"

text \<open>
  Between two runs of library code the main loop may deliver: the parent window's export
  callback with the handle (a C string, possibly null); a \<^verbatim>\<open>Response\<close> signal on an
  object path, with its code and results; or the caller cancelling the cancellable.

  The export callback runs only while an export is outstanding.  A signal runs
  \<^verbatim>\<open>response_received\<close> only when a subscription for its object path exists;
  afterwards the call structure is freed.  \<^verbatim>\<open>g_cancellable_cancel\<close> does nothing on a
  cancellable that is already cancelled; otherwise it sets the flag and runs every
  connected handler, here \<^verbatim>\<open>cancelled_cb\<close>.  A callback that runs on a freed call
  structure is a use after free.
\<close>

datatype env_event =
    ExportDone "string option"
  | Response string "32 word" vardict
  | Cancel

fun run_handlers :: "nat list \<Rightarrow> any_call option \<Rightarrow> world \<Rightarrow> fault + any_call option \<times> world" where
  "run_handlers [] c w = Inr (c, w)"
| "run_handlers (h # hs) c w =
     (case c of
        None \<Rightarrow> Inl UseAfterFree
      | Some k \<Rightarrow>
          (case cancelled_cb (common k) w of
             Inl f \<Rightarrow> Inl f
           | Inr w' \<Rightarrow> run_handlers hs c w'))"

definition in_flight :: "fault + any_call \<times> world \<Rightarrow> fault + any_call option \<times> world" where
  "in_flight r = (case r of Inl f \<Rightarrow> Inl f | Inr (k, w) \<Rightarrow> Inr (Some k, w))"

definition step :: "env_event \<Rightarrow> any_call option \<times> world \<Rightarrow> fault + any_call option \<times> world" where
  "step ev s =
     (case s of (c, w) \<Rightarrow>
        (case ev of
           ExportDone handle \<Rightarrow>
             (if exporting w
              then (case c of
                      None \<Rightarrow> Inl UseAfterFree
                    | Some k \<Rightarrow> in_flight (parent_exported handle k (w\<lparr>exporting := False\<rparr>)))
              else Inr s)
         | Response path code ret \<Rightarrow>
             (if path \<in> set (map snd (subscriptions w))
              then (case c of
                      None \<Rightarrow> Inl UseAfterFree
                    | Some k \<Rightarrow> Inr (None, response_received code ret k w))
              else Inr s)
         | Cancel \<Rightarrow>
             (case cancellable w of
                None \<Rightarrow> Inr s
              | Some g \<Rightarrow>
                  (if is_cancelled g then Inr s
                   else run_handlers (handlers g) c
                          (w\<lparr>cancellable := Some (g\<lparr>is_cancelled := True\<rparr>)\<rparr>)))))"

fun run ::
  "env_event list \<Rightarrow> fault + any_call option \<times> world \<Rightarrow> fault + any_call option \<times> world" where
  "run [] r = r"
| "run (e # es) r = (case r of Inl f \<Rightarrow> Inl f | Inr s \<Rightarrow> run es (step e s))"

text \<open>The six entry points, as one function of what the caller asks for.\<close>

datatype request =
    GetUserInformation "string option"
  | ComposeEmail "string option" "string option" "string option" "string list option"
  | OpenFile "string option" bool bool "GVariant option" "GVariant option"
  | SaveFile "string option" bool "string option" "string option" "string option"
      "GVariant option" "GVariant option"
  | TakeScreenshot bool bool
  | PickColor

definition start ::
  "XdpPortal \<Rightarrow> XdpParent option \<Rightarrow> request \<Rightarrow> GCancellable option \<Rightarrow> world
     \<Rightarrow> fault + any_call option \<times> world" where
  "start prtl prnt req canc w =
     in_flight
       (case req of
          GetUserInformation rsn \<Rightarrow>
            wrap CAccount (xdp_portal_get_user_information prtl prnt rsn canc w)
        | ComposeEmail addr subj bdy atts \<Rightarrow>
            wrap CEmail (xdp_portal_compose_email prtl prnt addr subj bdy atts canc w)
        | OpenFile ttl mdl mult flt chc \<Rightarrow>
            wrap CFile (xdp_portal_open_file prtl prnt ttl mdl mult flt chc canc w)
        | SaveFile ttl mdl cname cfolder cfile flt chc \<Rightarrow>
            wrap CFile
              (xdp_portal_save_file prtl prnt ttl mdl cname cfolder cfile flt chc canc w)
        | TakeScreenshot mdl intr \<Rightarrow>
            wrap CScreenshot (xdp_portal_take_screenshot prtl prnt mdl intr canc w)
        | PickColor \<Rightarrow> wrap CScreenshot (xdp_portal_pick_color prtl prnt canc w))"

section \<open>Notions used in the statements\<close>

text \<open>What can be observed of a run: the calls made on the collaborators and the result
  the task holds.\<close>

definition trace :: "fault + any_call option \<times> world \<Rightarrow> effect list" where
  "trace r = (case r of Inl f \<Rightarrow> [] | Inr (c, w) \<Rightarrow> effects w)"

definition outcome :: "fault + any_call option \<times> world \<Rightarrow> GTaskResult option" where
  "outcome r = (case r of Inl f \<Rightarrow> None | Inr (c, w) \<Rightarrow> task_result w)"

text \<open>
  The states of a call: waiting for the parent handle (no request path yet), waiting for
  the response (request path allocated, call structure alive), completed (call structure
  freed).  Issuing happens inside one run of the request function.
\<close>

datatype phase = ResolvingParent | AwaitingResponse | Completed

definition phase_of :: "any_call option \<times> world \<Rightarrow> phase" where
  "phase_of s =
     (case fst s of
        None \<Rightarrow> Completed
      | Some k \<Rightarrow>
          (case request_path (common k) of
             None \<Rightarrow> ResolvingParent
           | Some p \<Rightarrow> AwaitingResponse))"



definition connected :: "world \<Rightarrow> nat list" where
  "connected w = (case cancellable w of None \<Rightarrow> [] | Some g \<Rightarrow> handlers g)"

text \<open>The token is the part of a request path after its last slash.\<close>

definition last_segment :: "string \<Rightarrow> string" where
  "last_segment p = rev (takeWhile (\<lambda>c. c \<noteq> CHR ''/'') (rev p))"

text \<open>A method call on the portal, as opposed to \<^verbatim>\<open>Close\<close> on a request.\<close>

fun is_invocation :: "effect \<Rightarrow> bool" where
  "is_invocation (DBusCall b p i m ps fds c cb) = (p = PORTAL_OBJECT_PATH \<and> m \<noteq> ''Close'')"
| "is_invocation e = False"


fun is_subscribe :: "effect \<Rightarrow> bool" where
  "is_subscribe (SignalSubscribe s i m p n) = True"
| "is_subscribe e = False"



definition precedes :: "'a \<Rightarrow> 'a \<Rightarrow> 'a list \<Rightarrow> bool" where
  "precedes a b xs = (b \<in> set (drop 1 (dropWhile (\<lambda>x. x \<noteq> a) xs)))"

text \<open>Examples.\<close>

definition idle_world :: world where
  "idle_world =
     \<lparr>effects = [], cancellable = None, task_result = None, subscriptions = [],
      next_subscription = 0, exporting = False, rng = (\<lambda>n. 41), rng_pos = 0,
      uninit = None, fs = (\<lambda>p. if p = ''/tmp/a.txt'' then 7 else - 1),
      fd_append_fails = (\<lambda>fd. False), copy_of_null = Inl NullDereference\<rparr>"

definition live_cancellable :: GCancellable where
  "live_cancellable = \<lparr>is_cancelled = False, handlers = [], next_handler = 0\<rparr>"

definition app_portal :: XdpPortal where
  "app_portal = \<lparr>sender = ''1_42''\<rparr>"

text \<open>
  What every \<^verbatim>\<open>response_received\<close> does once it has chosen the result: disconnect
  the cancellation handler, hand the result to the task, free the call.
\<close>

definition finish :: "GTaskResult \<Rightarrow> 'a Call_scheme \<Rightarrow> world \<Rightarrow> world" where
  "finish r call w =
     (let (call1, w1) = disconnect_cancelled call w in call_free call1 (g_task_return r w1))"

definition emits :: "effect list \<Rightarrow> world \<Rightarrow> world" where
  "emits es w = w\<lparr>effects := effects w @ es\<rparr>"

text \<open>The effects of \<open>finish\<close>, in order.\<close>

definition teardown :: "GTaskResult \<Rightarrow> Call \<Rightarrow> effect list" where
  "teardown r c =
     (if cancelled_id c \<noteq> 0 then [HandlerDisconnect (cancelled_id c)] else [])
     @ [TaskReturn r]
     @ (if parent c \<noteq> None then [ParentUnexport] else [])
     @ (if signal_id c \<noteq> 0 then [SignalUnsubscribe (signal_id c)] else [])"

text \<open>
  Names for the parts of what the request functions compute: the integer drawn, the
  token, the request path, the call and the world after \<open>allocate_and_arm\<close> with the
  two effects it has, the options of \<^verbatim>\<open>compose_email\<close>, the critical warnings of
  \<^verbatim>\<open>file_call_free\<close>, and a call with its parent handle replaced.
\<close>

definition file_criticals :: "FileCall \<Rightarrow> effect list" where
  "file_criticals c =
     (case filters c of None \<Rightarrow> [Critical ''g_variant_unref''] | Some v \<Rightarrow> [])
     @ (case choices c of None \<Rightarrow> [Critical ''g_variant_unref''] | Some v \<Rightarrow> [])"

definition drawn :: "world \<Rightarrow> int" where
  "drawn w = fst (g_random_int_range 0 G_MAXINT w)"

definition token_of :: "world \<Rightarrow> string" where
  "token_of w = ''portal'' @ printf_d (drawn w)"

definition path_of :: "'a Call_scheme \<Rightarrow> world \<Rightarrow> string" where
  "path_of c w = REQUEST_PATH_PREFIX @ sender (portal c) @ ''/'' @ token_of w"

definition arm_effects :: "'a Call_scheme \<Rightarrow> world \<Rightarrow> effect list" where
  "arm_effects c w =
     SignalSubscribe PORTAL_BUS_NAME REQUEST_INTERFACE ''Response'' (path_of c w)
       (Suc (next_subscription w))
     # (case cancellable w of None \<Rightarrow> [] | Some g \<Rightarrow> [HandlerConnect (Suc (next_handler g))])"

definition armed_world :: "'a Call_scheme \<Rightarrow> world \<Rightarrow> world" where
  "armed_world c w = snd (snd (allocate_and_arm c w))"

definition armed_call :: "'a Call_scheme \<Rightarrow> world \<Rightarrow> 'a Call_scheme" where
  "armed_call c w = fst (snd (allocate_and_arm c w))"


definition with_parent_handle :: "string option \<Rightarrow> any_call \<Rightarrow> any_call" where
  "with_parent_handle handle k =
     (case k of
        CAccount c \<Rightarrow> CAccount (c\<lparr>parent_handle := handle\<rparr>)
      | CEmail c \<Rightarrow> CEmail (c\<lparr>parent_handle := handle\<rparr>)
      | CFile c \<Rightarrow> CFile (c\<lparr>parent_handle := handle\<rparr>)
      | CScreenshot c \<Rightarrow> CScreenshot (c\<lparr>parent_handle := handle\<rparr>))"

text \<open>A screenshot call that is waiting for its response.\<close>

definition example_screenshot_call :: ScreenshotCall where
  "example_screenshot_call =
     \<lparr>portal = app_portal, parent = None, parent_handle = Some '''', signal_id = 1,
      request_path = Some ''/org/freedesktop/portal/desktop/request/1_42/portal41'',
      cancelled_id = 0, color = False, modal = True, interactive = False\<rparr>"










text \<open>
  The shape of the effects of every reachable state.  While the parent handle is being
  resolved, nothing but exports has happened.  Afterwards the effects are: exports, then
  one issue of the request, then effects that are neither a subscription nor a method
  call on the portal.
\<close>

definition only_exports :: "effect list \<Rightarrow> bool" where
  "only_exports es = list_all (\<lambda>e. e = ParentExport) es"

definition no_issue :: "effect list \<Rightarrow> bool" where
  "no_issue es = (filter is_subscribe es = [] \<and> filter is_invocation es = [])"


text \<open>
  The world with the cancelled flag of its cancellable set to a given value, and what
  can be observed of a run when that flag is left aside: a fault, or the call, the
  effects and the task's result.
\<close>

definition with_cancelled :: "bool \<Rightarrow> world \<Rightarrow> world" where
  "with_cancelled b w =
     w\<lparr>cancellable := map_option (\<lambda>g. g\<lparr>is_cancelled := b\<rparr>) (cancellable w)\<rparr>"


lemmas world_defs =
  emit_def emits_def g_random_int_range_def g_dbus_connection_signal_subscribe_def
  g_dbus_connection_signal_unsubscribe_def g_signal_connect_cancelled_def
  g_signal_handler_disconnect_def g_dbus_connection_call_def g_task_return_def
  g_task_new_def parent_export_def parent_unexport_def

section \<open>Properties of the request and response functions\<close>

lemma common_simps [simp]:
  "common (CAccount a) = Call.truncate a"
  "common (CEmail e) = Call.truncate e"
  "common (CFile f) = Call.truncate f"
  "common (CScreenshot sc) = Call.truncate sc"
  by (simp_all add: common_def)

lemma truncate_fields [simp]:
  "portal (Call.truncate c) = portal c"
  "parent (Call.truncate c) = parent c"
  "parent_handle (Call.truncate c) = parent_handle c"
  "signal_id (Call.truncate c) = signal_id c"
  "request_path (Call.truncate c) = request_path c"
  "cancelled_id (Call.truncate c) = cancelled_id c"
  by (simp_all add: Call.truncate_def)


lemma finish_effects: "effects (finish r c w) = effects w @ teardown r (Call.truncate c)"
  by (simp add: finish_def disconnect_cancelled_def call_free_def teardown_def world_defs Let_def split: option.splits)

lemma finish_fields [simp]:
  "task_result (finish r c w) = Some r"
  "subscriptions (finish r c w) =
     (if signal_id c \<noteq> 0 then filter (\<lambda>s. fst s \<noteq> signal_id c) (subscriptions w)
      else subscriptions w)"
  "connected (finish r c w) =
     (if cancelled_id c \<noteq> 0 then removeAll (cancelled_id c) (connected w) else connected w)"
  "exporting (finish r c w) = (if parent c \<noteq> None then False else exporting w)"
  by (simp_all add: finish_def disconnect_cancelled_def call_free_def connected_def world_defs Let_def split: option.splits)

lemma account_response_received_finish:
  "account_response_received code ret c w =
     finish (if code = 0 then ReturnPointer (PVariant (VDict ret))
             else if code = 1 then ReturnError G_IO_ERROR_CANCELLED ''Account canceled''
             else ReturnError G_IO_ERROR_FAILED ''Account failed'') c w"
  by (simp add: account_response_received_def finish_def Let_def split: prod.splits)

lemma email_response_received_finish:
  "email_response_received code ret c w =
     finish (if code = 0 then ReturnBoolean True
             else if code = 1 then ReturnError G_IO_ERROR_CANCELLED ''Email canceled''
             else ReturnError G_IO_ERROR_FAILED ''Email failed'') c w"
  by (simp add: email_response_received_def finish_def Let_def split: prod.splits)

lemma disconnect_cancelled_more [simp]:
  "Call.more (fst (disconnect_cancelled c w)) = Call.more c"
  by (simp add: disconnect_cancelled_def)

lemma file_response_received_finish:
  "file_response_received code ret c w =
     emits (file_criticals c)
       (finish (if code = 0 then ReturnPointer (PVariant (VDict ret))
                else if code = 1 then ReturnError G_IO_ERROR_CANCELLED ''Filechooser canceled''
                else ReturnError G_IO_ERROR_FAILED ''Filechooser failed'') c w)"
  by (simp add: file_response_received_def file_call_free_def finish_def Let_def
        file_criticals_def emits_def emit_def disconnect_cancelled_def
      split: prod.splits option.splits)

lemma disconnect_cancelled_uninit [simp]:
  "uninit (snd (disconnect_cancelled c w)) = uninit w"
  by (simp add: disconnect_cancelled_def world_defs)

lemma screenshot_response_received_finish:
  "screenshot_response_received code ret c w =
     finish (if code = 0 then
               (if color c then
                  (case g_variant_lookup ret ''color'' is_ddd of
                     Some v \<Rightarrow> ReturnPointer (PVariant v)
                   | None \<Rightarrow> ReturnError G_IO_ERROR_FAILED ''Color not received'')
                else
                  (case (case g_variant_lookup ret ''uri'' is_s of
                           Some (VString u) \<Rightarrow> Some u | _ \<Rightarrow> uninit w) of
                     Some u \<Rightarrow> ReturnPointer (PString u)
                   | None \<Rightarrow> ReturnError G_IO_ERROR_FAILED ''Screenshot not received''))
             else if code = 1 then ReturnError G_IO_ERROR_CANCELLED ''Screenshot canceled''
             else ReturnError G_IO_ERROR_FAILED ''Screenshot failed'') c w"
  by (simp add: screenshot_response_received_def finish_def Let_def disconnect_cancelled_def world_defs
       split: prod.splits option.splits GVariant.splits)

lemma path_of_truncate [simp]: "path_of (Call.truncate c) w = path_of c w"
  by (simp add: path_of_def)

lemma arm_effects_truncate [simp]: "arm_effects (Call.truncate c) w = arm_effects c w"
  by (simp add: arm_effects_def)

lemma allocate_and_arm_eq:
  "allocate_and_arm c w = (token_of w, armed_call c w, armed_world c w)"
  by (simp add: armed_call_def armed_world_def prod_eq_iff allocate_and_arm_def token_of_def
        drawn_def world_defs Let_def split: prod.splits option.splits)

lemma armed_call_fields [simp]:
  "request_path (armed_call c w) = Some (path_of c w)"
  "signal_id (armed_call c w) = Suc (next_subscription w)"
  "cancelled_id (armed_call c w) =
     (case cancellable w of None \<Rightarrow> cancelled_id c | Some g \<Rightarrow> Suc (next_handler g))"
  "parent (armed_call c w) = parent c"
  "parent_handle (armed_call c w) = parent_handle c"
  "portal (armed_call c w) = portal c"
  "Call.more (armed_call c w) = Call.more c"
  by (simp_all add: armed_call_def allocate_and_arm_def path_of_def token_of_def drawn_def
        world_defs Let_def split: prod.splits option.splits)

lemma armed_world_fields [simp]:
  "effects (armed_world c w) = effects w @ arm_effects c w"
  "subscriptions (armed_world c w) =
     subscriptions w @ [(Suc (next_subscription w), path_of c w)]"
  "connected (armed_world c w) =
     (case cancellable w of None \<Rightarrow> [] | Some g \<Rightarrow> handlers g @ [Suc (next_handler g)])"
  "(cancellable (armed_world c w) = None) = (cancellable w = None)"
  "map_option is_cancelled (cancellable (armed_world c w))
     = map_option is_cancelled (cancellable w)"
  "task_result (armed_world c w) = task_result w"
  "exporting (armed_world c w) = exporting w"
  "uninit (armed_world c w) = uninit w"
  "fs (armed_world c w) = fs w"
  "fd_append_fails (armed_world c w) = fd_append_fails w"
  by (simp_all add: armed_world_def allocate_and_arm_def arm_effects_def path_of_def
        token_of_def drawn_def connected_def world_defs Let_def
      split: prod.splits option.splits)

lemma armed_world_some [simp]:
  "(\<exists>y. cancellable (armed_world c w) = Some y) = (\<exists>y. cancellable w = Some y)"
  using armed_world_fields(4) [of c w] by (metis not_None_eq)

lemma armed_truncate [simp]:
  "armed_world (Call.truncate c) w = armed_world c w"
  "armed_call (Call.truncate c) w = Call.truncate (armed_call c w)"
  by (simp_all add: armed_world_def armed_call_def allocate_and_arm_def Let_def
        Call.truncate_def split: prod.splits option.splits)

lemma emits_fields [simp]:
  "effects (emits es w) = effects w @ es"
  "subscriptions (emits es w) = subscriptions w"
  "cancellable (emits es w) = cancellable w"
  "connected (emits es w) = connected w"
  "task_result (emits es w) = task_result w"
  "exporting (emits es w) = exporting w"
  "uninit (emits es w) = uninit w"
  by (simp_all add: emits_def connected_def)




lemma open_file_resolved:
  "parent_handle c = Some h \<Longrightarrow>
   open_file c w =
     (case title c of
        None \<Rightarrow> Inl PreconditionViolated
      | Some t \<Rightarrow>
          Inr (armed_call c w,
               emits [DBusCall PORTAL_BUS_NAME PORTAL_OBJECT_PATH
                        ''org.freedesktop.portal.FileChooser''
                        (if save_mode c then ''SaveFile'' else ''OpenFile'')
                        (Some (VTuple [VString h, VString t,
                           VDict ((''handle_token'', VString (token_of w))
                                  # (''modal'', VBoolean (FileCall.modal c))
                                  # (if multiple c then [(''multiple'', VBoolean (multiple c))]
                                     else [])
                                  @ opt_variant ''filters'' (filters c)
                                  @ opt_variant ''choices'' (choices c)
                                  @ opt_entry ''current_name'' (current_name c)
                                  @ opt_entry ''current_folder'' (current_folder c)
                                  @ opt_entry ''current_file'' (current_file c))]))
                        None (cancellable w \<noteq> None) False]
                 (armed_world c w)))"
  by (simp add: open_file_def allocate_and_arm_eq
        g_dbus_connection_call_def emit_def emits_def split: option.splits)



lemma common_with_parent_handle [simp]:
  "common (with_parent_handle handle k) = (common k)\<lparr>parent_handle := handle\<rparr>"
  by (cases k) (simp_all add: with_parent_handle_def Call.truncate_def)





section \<open>The response code and the result\<close>

text \<open>
  C1 (as amended).  The result a response handler gives to the task: for code 0 the
  results dictionary (account, file chooser), \<open>TRUE\<close> (email), the color when the
  results hold one of type \<^verbatim>\<open>(ddd)\<close> and otherwise the error "Color not received"
  (pick color), the uri when the results hold a string under \<^verbatim>\<open>uri\<close> (screenshot);
  for code 1 the error \<^verbatim>\<open>G_IO_ERROR_CANCELLED\<close>; for any other code the error
  \<^verbatim>\<open>G_IO_ERROR_FAILED\<close> with the message "Account failed", "Email failed",
  "Filechooser failed" or "Screenshot failed".
\<close>

theorem C1_response_code_mapping:
  "task_result (account_response_received code ret a w) =
     Some (if code = 0 then ReturnPointer (PVariant (VDict ret))
           else if code = 1 then ReturnError G_IO_ERROR_CANCELLED ''Account canceled''
           else ReturnError G_IO_ERROR_FAILED ''Account failed'')
   \<and> task_result (email_response_received code ret e w) =
     Some (if code = 0 then ReturnBoolean True
           else if code = 1 then ReturnError G_IO_ERROR_CANCELLED ''Email canceled''
           else ReturnError G_IO_ERROR_FAILED ''Email failed'')
   \<and> task_result (file_response_received code ret f w) =
     Some (if code = 0 then ReturnPointer (PVariant (VDict ret))
           else if code = 1 then ReturnError G_IO_ERROR_CANCELLED ''Filechooser canceled''
           else ReturnError G_IO_ERROR_FAILED ''Filechooser failed'')
   \<and> (code \<noteq> 0 \<longrightarrow>
        task_result (screenshot_response_received code ret s w) =
          Some (if code = 1 then ReturnError G_IO_ERROR_CANCELLED ''Screenshot canceled''
                else ReturnError G_IO_ERROR_FAILED ''Screenshot failed''))
   \<and> (color s \<longrightarrow>
        task_result (screenshot_response_received 0 ret s w) =
          Some (case g_variant_lookup ret ''color'' is_ddd of
                  Some v \<Rightarrow> ReturnPointer (PVariant v)
                | None \<Rightarrow> ReturnError G_IO_ERROR_FAILED ''Color not received''))
   \<and> (\<not> color s \<longrightarrow> g_variant_lookup ret ''uri'' is_s = Some (VString u) \<longrightarrow>
        task_result (screenshot_response_received 0 ret s w) =
          Some (ReturnPointer (PString u)))"
  by (simp add: account_response_received_finish email_response_received_finish
        file_response_received_finish screenshot_response_received_finish)

text \<open>
  The theorem at a screenshot call: code 0 with a uri, code 2, and code 0 with no color
  for a color pick.
\<close>

theorem C1_response_code_mapping_witness:
  "task_result (screenshot_response_received 0 [(''uri'', VString ''file:///shot.png'')]
      example_screenshot_call idle_world) = Some (ReturnPointer (PString ''file:///shot.png''))
   \<and> task_result (screenshot_response_received 2 [] example_screenshot_call idle_world)
       = Some (ReturnError G_IO_ERROR_FAILED ''Screenshot failed'')
   \<and> task_result (screenshot_response_received 0 []
         (example_screenshot_call\<lparr>color := True\<rparr>) idle_world)
       = Some (ReturnError G_IO_ERROR_FAILED ''Color not received'')"
  using C1_response_code_mapping
          [of 0 "[(''uri'', VString ''file:///shot.png'')]" _ idle_world _ _ example_screenshot_call
              "''file:///shot.png''"]
        C1_response_code_mapping [of 2 "[]" _ idle_world _ _ example_screenshot_call]
        C1_response_code_mapping [of 0 "[]" _ idle_world _ _ "example_screenshot_call\<lparr>color := True\<rparr>"]
  by (simp add: g_variant_lookup_def example_screenshot_call_def)

text \<open>
  C1 as stated fails: the code alone does not fix the outcome.  A color pick whose
  response has code 0 fails when the results hold no color and succeeds when they do.
\<close>

theorem C1_counterexample:
  "outcome (run [Response ''/org/freedesktop/portal/desktop/request/1_42/portal41'' 0 []]
             (start app_portal None PickColor None idle_world))
     = Some (ReturnError G_IO_ERROR_FAILED ''Color not received'')
   \<and> outcome (run [Response ''/org/freedesktop/portal/desktop/request/1_42/portal41'' 0
                      [(''color'', VTuple [VDouble 1, VDouble 0, VDouble 0])]]
             (start app_portal None PickColor None idle_world))
     = Some (ReturnPointer (PVariant (VTuple [VDouble 1, VDouble 0, VDouble 0])))"
  by code_simp

section \<open>Teardown\<close>

text \<open>
  C2 (as amended).  On every branch of every response handler the same teardown runs,
  whatever the code and the results: first the cancellation handler is disconnected (when
  one was connected), then the result is handed to the task, and only after that the
  parent is unexported (when there is one) and the signal subscription is removed, in
  that order.  The file chooser then logs a critical warning for each of \<open>filters\<close>
  and \<open>choices\<close> that is null.  Afterwards the subscription and the handler are gone.
\<close>

theorem C2_teardown_on_every_branch:
  "\<exists>r. task_result (response_received code ret k w) = Some r
     \<and> effects (response_received code ret k w) =
         effects w
         @ (if cancelled_id (common k) \<noteq> 0 then [HandlerDisconnect (cancelled_id (common k))]
            else [])
         @ [TaskReturn r]
         @ (if parent (common k) \<noteq> None then [ParentUnexport] else [])
         @ (if signal_id (common k) \<noteq> 0 then [SignalUnsubscribe (signal_id (common k))]
            else [])
         @ (case k of CFile f \<Rightarrow> file_criticals f | _ \<Rightarrow> [])
     \<and> subscriptions (response_received code ret k w) =
         (if signal_id (common k) \<noteq> 0
          then filter (\<lambda>s. fst s \<noteq> signal_id (common k)) (subscriptions w)
          else subscriptions w)
     \<and> connected (response_received code ret k w) =
         (if cancelled_id (common k) \<noteq> 0
          then removeAll (cancelled_id (common k)) (connected w)
          else connected w)"
proof (cases k)
  case (CAccount c)
  then show ?thesis
    by (simp add: response_received_def account_response_received_finish finish_effects
          teardown_def)
next
  case (CEmail c)
  then show ?thesis
    by (simp add: response_received_def email_response_received_finish finish_effects
          teardown_def)
next
  case (CFile c)
  then show ?thesis
    by (simp add: response_received_def file_response_received_finish finish_effects
          teardown_def)
next
  case (CScreenshot c)
  then show ?thesis
    by (simp add: response_received_def screenshot_response_received_finish finish_effects
          teardown_def)
qed

text \<open>
  C2 as stated fails: in an account call with a parent and a cancellable, the result is
  handed to the task before the parent is unexported and before the signal is
  unsubscribed, and the parent is unexported before the signal is unsubscribed.
\<close>

theorem C2_counterexample:
  "trace (run [ExportDone (Some ''x11:1''),
               Response ''/org/freedesktop/portal/desktop/request/1_42/portal41'' 0 []]
           (start app_portal (Some (XdpParent 1)) (GetUserInformation (Some ''why''))
              (Some live_cancellable) idle_world))
   = [ParentExport,
      SignalSubscribe ''org.freedesktop.portal.Desktop'' ''org.freedesktop.portal.Request''
        ''Response'' ''/org/freedesktop/portal/desktop/request/1_42/portal41'' 1,
      HandlerConnect 1,
      DBusCall ''org.freedesktop.portal.Desktop'' ''/org/freedesktop/portal/desktop''
        ''org.freedesktop.portal.Account'' ''GetUserInformation''
        (Some (VTuple [VString ''x11:1'',
           VDict [(''handle_token'', VString ''portal41''), (''reason'', VString ''why'')]]))
        None True False,
      HandlerDisconnect 1,
      TaskReturn (ReturnPointer (PVariant (VDict []))),
      ParentUnexport,
      SignalUnsubscribe 1]
   \<and> precedes (TaskReturn (ReturnPointer (PVariant (VDict [])))) ParentUnexport
       (trace (run [ExportDone (Some ''x11:1''),
               Response ''/org/freedesktop/portal/desktop/request/1_42/portal41'' 0 []]
           (start app_portal (Some (XdpParent 1)) (GetUserInformation (Some ''why''))
              (Some live_cancellable) idle_world)))
   \<and> precedes ParentUnexport (SignalUnsubscribe 1)
       (trace (run [ExportDone (Some ''x11:1''),
               Response ''/org/freedesktop/portal/desktop/request/1_42/portal41'' 0 []]
           (start app_portal (Some (XdpParent 1)) (GetUserInformation (Some ''why''))
              (Some live_cancellable) idle_world)))"
  by code_simp

section \<open>Tokens and request paths\<close>

declare string_of_nat.simps [simp del]

lemma of_char_digit_char: "d < 10 \<Longrightarrow> (of_char (digit_char d) :: nat) = 48 + d"
  by (simp add: digit_char_def)


lemma digit_char_not_slash: "d < 10 \<Longrightarrow> digit_char d \<noteq> CHR ''/''"
proof
  assume d: "d < 10" and eq: "digit_char d = CHR ''/''"
  have "(of_char (digit_char d) :: nat) = of_char CHR ''/''" using eq by simp
  then show False using of_char_digit_char [OF d] by simp
qed


lemma string_of_nat_snoc:
  "string_of_nat n =
     (if n < 10 then [] else string_of_nat (n div 10)) @ [digit_char (n mod 10)]"
  by (subst string_of_nat.simps) simp


lemma string_of_nat_digits: "c \<in> set (string_of_nat n) \<Longrightarrow> \<exists>d<10. c = digit_char d"
proof (induction n rule: string_of_nat.induct)
  case (1 n)
  from "1.prems" have "c \<in> set ((if n < 10 then [] else string_of_nat (n div 10)) @ [digit_char (n mod 10)])"
    by (subst (asm) string_of_nat_snoc)
  then consider "\<not> n < 10" "c \<in> set (string_of_nat (n div 10))" | "c = digit_char (n mod 10)"
    by (auto split: if_splits)
  then show ?case
  proof cases
    case 1
    then show ?thesis using "1.IH" by blast
  next
    case 2
    have "n mod 10 < 10" by simp
    then show ?thesis using 2 by blast
  qed
qed



lemma string_of_nat_no_slash: "CHR ''/'' \<notin> set (string_of_nat n)"
proof
  assume "CHR ''/'' \<in> set (string_of_nat n)"
  then obtain d where "d < 10" "CHR ''/'' = digit_char d"
    using string_of_nat_digits by blast
  then show False using digit_char_not_slash by metis
qed

lemma printf_d_no_slash: "CHR ''/'' \<notin> set (printf_d i)"
  using string_of_nat_no_slash by (simp add: printf_d_def)

lemma last_segment_append:
  "CHR ''/'' \<notin> set t \<Longrightarrow> last_segment (p @ ''/'' @ t) = t"
proof -
  assume t: "CHR ''/'' \<notin> set t"
  have "rev (p @ ''/'' @ t) = rev t @ CHR ''/'' # rev p" by simp
  moreover have "takeWhile (\<lambda>c. c \<noteq> CHR ''/'') (rev t @ CHR ''/'' # rev p)
      = takeWhile (\<lambda>c. c \<noteq> CHR ''/'') (rev t)"
    by (rule takeWhile_tail) simp
  moreover have "takeWhile (\<lambda>c. c \<noteq> CHR ''/'') (rev t) = rev t"
    using t by (auto simp: takeWhile_eq_all_conv)
  ultimately show ?thesis by (simp add: last_segment_def)
qed

lemma token_no_slash: "CHR ''/'' \<notin> set (token_of w)"
  using printf_d_no_slash by (simp add: token_of_def)


lemma last_segment_path_of [simp]: "last_segment (path_of c w) = token_of w"
proof -
  have "path_of c w = (REQUEST_PATH_PREFIX @ sender (portal c)) @ ''/'' @ token_of w"
    by (simp add: path_of_def)
  then show ?thesis using last_segment_append [OF token_no_slash] by metis
qed


section \<open>Request identity\<close>


lemma printf_d_42: "printf_d 42 = ''42''"
  by code_simp

lemma drawn_idle_world: "drawn idle_world = 41"
  by (simp add: drawn_def g_random_int_range_def idle_world_def G_MAXINT_def)





section \<open>The token in the options and in the request path\<close>



section \<open>The options of an email\<close>






section \<open>A response without the expected field\<close>

text \<open>
  C6.  A screenshot whose response has code 0 and no \<^verbatim>\<open>uri\<close>: the handler tests the
  uninitialised local \<open>uri\<close>.  When that holds a stale pointer the task gets it as a
  successful result; only when it happens to be null does the task get the error
  "Screenshot not received".  A color pick without a color always gets the error.
\<close>

theorem C6_screenshot_without_uri:
  "outcome (run [Response ''/org/freedesktop/portal/desktop/request/1_42/portal41'' 0 []]
             (start app_portal None (TakeScreenshot True False) None
                (idle_world\<lparr>uninit := Some ''stale''\<rparr>)))
     = Some (ReturnPointer (PString ''stale''))
   \<and> outcome (run [Response ''/org/freedesktop/portal/desktop/request/1_42/portal41'' 0 []]
             (start app_portal None (TakeScreenshot True False) None idle_world))
     = Some (ReturnError G_IO_ERROR_FAILED ''Screenshot not received'')
   \<and> outcome (run [Response ''/org/freedesktop/portal/desktop/request/1_42/portal41'' 0 []]
             (start app_portal None PickColor None (idle_world\<lparr>uninit := Some ''stale''\<rparr>)))
     = Some (ReturnError G_IO_ERROR_FAILED ''Color not received'')"
  by code_simp

section \<open>No parent window\<close>

text \<open>
  C7.  Without a parent, \<^verbatim>\<open>xdp_portal_save_file\<close> hands the null pointer to
  \<^verbatim>\<open>_xdp_parent_copy\<close> and leaves the parent handle unset.  Whatever that function does
  with a null pointer, the call does not go on to allocate its token: it faults in the
  copy, or faults in \<^verbatim>\<open>open_file\<close> when it calls \<open>export\<close> through the null parent,
  or starts an export on whatever the copy returned.  \<^verbatim>\<open>xdp_portal_open_file\<close> in the
  same file sets the parent handle to the empty string and issues the request at once.
\<close>

theorem C7_save_file_without_parent:
  "xdp_portal_save_file prtl None ttl mdl cname cfolder cfile flt chc canc
       (w\<lparr>copy_of_null := Inl NullDereference\<rparr>) = Inl NullDereference
   \<and> xdp_portal_save_file prtl None ttl mdl cname cfolder cfile flt chc canc
       (w\<lparr>copy_of_null := Inr None\<rparr>) = Inl NullDereference
   \<and> (case xdp_portal_save_file prtl None ttl mdl cname cfolder cfile flt chc canc w of
         Inl f \<Rightarrow> True
       | Inr (c, w') \<Rightarrow>
           parent_handle c = None \<and> request_path c = None
           \<and> effects w' = effects w @ [ParentExport])
   \<and> (case xdp_portal_open_file prtl None (Some t) mdl mult flt chc canc w of
         Inl f \<Rightarrow> False
       | Inr (c, w') \<Rightarrow>
           parent_handle c = Some [] \<and> request_path c \<noteq> None
           \<and> butlast (effects w') = effects w @ arm_effects c (g_task_new canc w))"
proof -
  have save: "xdp_portal_save_file prtl None ttl mdl cname cfolder cfile flt chc canc v =
      (case copy_of_null v of
         Inl f \<Rightarrow> Inl f
       | Inr None \<Rightarrow> Inl NullDereference
       | Inr (Some q) \<Rightarrow>
           Inr (\<lparr>portal = prtl, parent = Some q, parent_handle = None, signal_id = 0,
                 request_path = None, cancelled_id = 0, save_mode = True, title = ttl,
                 modal = mdl, multiple = False, current_name = cname,
                 current_folder = cfolder, current_file = cfile, filters = flt,
                 choices = chc\<rparr>,
                parent_export (g_task_new canc v)))" for v
    by (simp add: xdp_portal_save_file_def xdp_parent_copy_def open_file_def
        split: sum.splits option.splits)
  have "parent_handle
          (\<lparr>portal = prtl, parent = None, parent_handle = Some [], signal_id = 0,
            request_path = None, cancelled_id = 0, save_mode = False, title = Some t,
            modal = mdl, multiple = mult, current_name = None, current_folder = None,
            current_file = None, filters = flt, choices = chc\<rparr> :: FileCall) = Some []"
    by simp
  note opened = open_file_resolved [OF this, of "g_task_new canc w"]
  have "xdp_portal_open_file prtl None (Some t) mdl mult flt chc canc w =
      open_file \<lparr>portal = prtl, parent = None, parent_handle = Some [], signal_id = 0,
            request_path = None, cancelled_id = 0, save_mode = False, title = Some t,
            modal = mdl, multiple = mult, current_name = None, current_folder = None,
            current_file = None, filters = flt, choices = chc\<rparr> (g_task_new canc w)"
    by (simp add: xdp_portal_open_file_def)
  then have opn: "case xdp_portal_open_file prtl None (Some t) mdl mult flt chc canc w of
         Inl f \<Rightarrow> False
       | Inr (c, w') \<Rightarrow>
           parent_handle c = Some [] \<and> request_path c \<noteq> None
           \<and> butlast (effects w') = effects w @ arm_effects c (g_task_new canc w)"
    unfolding opened
    by (simp add: butlast_append g_task_new_def arm_effects_def path_of_def token_of_def
          drawn_def g_random_int_range_def)
  show ?thesis
    using opn
    by (simp add: save parent_export_def emit_def g_task_new_def split: sum.splits option.splits)
qed

section \<open>Reachable states\<close>





lemma wrap_Inr: "wrap K r = Inr (k, w) \<longleftrightarrow> (\<exists>c. r = Inr (c, w) \<and> k = K c)"
  by (auto simp: wrap_def split: sum.splits)











lemma run_append: "run (es1 @ es2) r = run es2 (run es1 r)"
proof (induction es1 arbitrary: r)
  case Nil
  show ?case by simp
next
  case (Cons e es1)
  show ?case
  proof (cases r)
    case (Inl f)
    then show ?thesis by (induction es2) simp_all
  next
    case (Inr s)
    then show ?thesis using Cons.IH by simp
  qed
qed

lemma run_Inl [simp]: "run es (Inl f) = Inl f"
  by (cases es) simp_all



section \<open>The shape of the effects\<close>

lemma no_issue_simps [simp]:
  "no_issue []"
  "no_issue (es @ gs) = (no_issue es \<and> no_issue gs)"
  "no_issue (e # es) = (\<not> is_subscribe e \<and> \<not> is_invocation e \<and> no_issue es)"
  by (auto simp: no_issue_def)

lemma only_exports_simps [simp]:
  "only_exports []"
  "only_exports (es @ gs) = (only_exports es \<and> only_exports gs)"
  "only_exports (e # es) = (e = ParentExport \<and> only_exports es)"
  by (auto simp: only_exports_def)

lemma only_exports_no_issue: "only_exports es \<Longrightarrow> no_issue es"
  by (induction es) auto

lemma no_issue_teardown [simp]: "no_issue (teardown r c)"
  by (simp add: teardown_def)

lemma no_issue_file_criticals [simp]: "no_issue (file_criticals f)"
  by (simp add: file_criticals_def split: option.splits)



lemma phase_of_simps [simp]:
  "phase_of (None, w) = Completed"
  "phase_of (Some k, w) =
     (case request_path (common k) of None \<Rightarrow> ResolvingParent | Some p \<Rightarrow> AwaitingResponse)"
  by (simp_all add: phase_of_def)








section \<open>The order of the states\<close>



section \<open>Cancellation after the response\<close>






section \<open>Cancellation before the invocation\<close>



lemma with_cancelled_fields [simp]:
  "effects (with_cancelled b w) = effects w"
  "task_result (with_cancelled b w) = task_result w"
  "exporting (with_cancelled b w) = exporting w"
  "subscriptions (with_cancelled b w) = subscriptions w"
  "(cancellable (with_cancelled b w) = None) = (cancellable w = None)"
  by (simp_all add: with_cancelled_def)

lemma with_cancelled_some [simp]:
  "(\<exists>y. cancellable (with_cancelled b w) = Some y) = (\<exists>y. cancellable w = Some y)"
  by (simp add: with_cancelled_def)


















end
